theory Spec2Isabelle
  imports Complex_Main "HOL-Library.Word" "HOL-Library.Multiset"
begin

section \<open>Go values used by main.go\<close>

text \<open>
  A Go \<^verbatim>\<open>error\<close> value. \<^verbatim>\<open>http.ErrServerClosed\<close> and the context deadline error are
  the two sentinels the shutdown path can meet; every other error is known by its
  description only. A function returning \<^verbatim>\<open>error\<close> returns \<open>error option\<close>,
  \<open>None\<close> being \<^verbatim>\<open>nil\<close>; a function returning \<^verbatim>\<open>(T, error)\<close> returns \<open>error + T\<close>.
\<close>

datatype error = ErrServerClosed | DeadlineExceeded | Err string

text \<open>\<^verbatim>\<open>err.Error()\<close>\<close>

fun Error :: "error \<Rightarrow> string" where
  "Error ErrServerClosed = ''http: Server closed''"
| "Error DeadlineExceeded = ''context deadline exceeded''"
| "Error (Err s) = s"

text \<open>\<^verbatim>\<open>errors.Is(err, target)\<close> on errors that wrap nothing.\<close>

definition errors_Is :: "error \<Rightarrow> error \<Rightarrow> bool" where
  "errors_Is err target = (err = target)"

text \<open>
  How a call ends: it returns a value, it panics (an index out of range), or it blocks
  for ever (a receive on a channel nobody sends on, a \<^verbatim>\<open>WaitGroup.Wait\<close> whose counter
  never reaches zero).
\<close>

datatype 'a outcome = Returns 'a | Panics | Blocks

text \<open>
  A Go slice. \<^verbatim>\<open>var s []T\<close> is the nil slice; \<^verbatim>\<open>append\<close> on it gives a non-nil one.
  The two differ when marshalled to JSON.
\<close>

datatype 'a slice = NilSlice | Slice "'a list"

fun elems :: "'a slice \<Rightarrow> 'a list" where
  "elems NilSlice = []"
| "elems (Slice xs) = xs"

fun append_slice :: "'a slice \<Rightarrow> 'a \<Rightarrow> 'a slice" where
  "append_slice NilSlice x = Slice [x]"
| "append_slice (Slice xs) x = Slice (xs @ [x])"

text \<open>\<^verbatim>\<open>s[i]\<close>: a run-time panic when \<open>i\<close> is out of range.\<close>

definition slice_index :: "'a list \<Rightarrow> nat \<Rightarrow> 'a outcome" where
  "slice_index s i = (if i < length s then Returns (s ! i) else Panics)"

text \<open>
  \<^verbatim>\<open>sort.Slice(s, less)\<close>. The library promises a permutation of \<open>s\<close> in which no later
  element is \<open>less\<close> than an earlier one, and no more: the sort is not stable, so the
  order of elements that compare equal is not fixed. The model is insertion sort, which
  is what the library itself runs on short slices; on longer ones the order it gives to
  equal elements may differ from the library's, and no statement below depends on it.
\<close>

fun insert_by :: "('a \<Rightarrow> 'a \<Rightarrow> bool) \<Rightarrow> 'a \<Rightarrow> 'a list \<Rightarrow> 'a list" where
  "insert_by lt x [] = [x]"
| "insert_by lt x (y # ys) = (if lt x y then x # y # ys else y # insert_by lt x ys)"

fun insertion_sort :: "('a \<Rightarrow> 'a \<Rightarrow> bool) \<Rightarrow> 'a list \<Rightarrow> 'a list \<Rightarrow> 'a list" where
  "insertion_sort lt [] acc = acc"
| "insertion_sort lt (x # xs) acc = insertion_sort lt xs (insert_by lt x acc)"

fun sort_Slice :: "('a \<Rightarrow> 'a \<Rightarrow> bool) \<Rightarrow> 'a slice \<Rightarrow> 'a slice" where
  "sort_Slice lt NilSlice = NilSlice"
| "sort_Slice lt (Slice xs) = Slice (insertion_sort lt xs [])"

section \<open>The wire types (main.go, lines 306 to 362)\<close>

text \<open>
  \<^verbatim>\<open>uint64\<close> is \<open>64 word\<close>, \<^verbatim>\<open>int32\<close> is \<open>32 word\<close> (read with \<open>sint\<close>). \<^verbatim>\<open>float64\<close> and
  \<^verbatim>\<open>float32\<close> are modelled by \<open>real\<close>: the program copies and compares them, and the
  comparison of finite floats is the one of the reals; its one computation, the
  resident set size in megabytes, is a conversion that rounds and two divisions by a
  power of two, which are exact. Not-a-number is left out.
\<close>

record Memory =
  Mem_Total :: "64 word"
  Mem_Available :: "64 word"
  Mem_Used :: "64 word"
  Mem_UsedPercent :: real
  Mem_Free :: "64 word"

record LoadAverage =
  Load1 :: real
  Load5 :: real
  Load15 :: real

record DiskPartition =
  DP_Device :: string
  DP_Mountpoint :: string
  DP_Fstype :: string
  DP_Total :: "64 word"
  DP_Used :: "64 word"
  DP_Free :: "64 word"
  DP_UsedPercent :: real

record ProcessInfo =
  PID :: "32 word"
  Name :: string
  CPUPercent :: real
  MemoryMB :: real
  MemoryPercent :: real
  Status :: string
  Username :: string
  Cmdline :: string

record Resources =
  Hostname :: string
  Uptime :: "64 word"
  Memory :: Memory
  LoadAverage :: LoadAverage
  Partitions :: "DiskPartition slice"
  Processes :: "ProcessInfo slice"

section \<open>firstOrEmpty (main.go, lines 224 to 229)\<close>

definition firstOrEmpty :: "string list \<Rightarrow> string outcome" where
  "firstOrEmpty s = (if length s > 0 then slice_index s 0 else Returns '''')"

section \<open>What the handler asks of its libraries\<close>

text \<open>
  The values the gopsutil calls hand back, with the fields main.go reads. A call whose
  error the code discards (\<^verbatim>\<open>cpuPercent, _ := p.CPUPercent()\<close>) is given by its value.
\<close>

record VirtualMemoryStat =
  vm_Total :: "64 word"
  vm_Available :: "64 word"
  vm_Used :: "64 word"
  vm_UsedPercent :: real
  vm_Free :: "64 word"

record AvgStat =
  avg_Load1 :: real
  avg_Load5 :: real
  avg_Load15 :: real

record PartitionStat =
  Device :: string
  Mountpoint :: string
  Fstype :: string

record UsageStat =
  us_Total :: "64 word"
  us_Used :: "64 word"
  us_Free :: "64 word"
  us_UsedPercent :: real

record MemoryInfoStat =
  RSS :: "64 word"

record Process =
  Pid :: "32 word"
  p_Name :: "error + string"
  p_CPUPercent :: real
  p_MemoryInfo :: "error + MemoryInfoStat"
  p_Cmdline :: string
  p_MemoryPercent :: real
  p_Status :: "string list"
  p_Username :: string

text \<open>
  One call of \<^verbatim>\<open>sendSnapshot\<close> sees one state of the host: the result of each library
  call it makes, \<^verbatim>\<open>disk.Usage\<close> given beside the partition it is asked about, and the
  result of the final \<^verbatim>\<open>conn.WriteJSON\<close>.
\<close>

record probe =
  host_Uptime :: "error + 64 word"
  mem_VirtualMemory :: "error + VirtualMemoryStat"
  load_Avg :: "error + AvgStat"
  disk_Partitions :: "error + (PartitionStat \<times> (error + UsageStat)) list"
  process_Processes :: "error + Process list"
  conn_WriteJSON :: "error option"

text \<open>
  What the handler does to the outside, in order: the calls on the response writer and
  on the connection (\<^verbatim>\<open>WriteJSON\<close> with the error it returned), the timer that fired
  (\<open>TimeAfter n\<close> is \<^verbatim>\<open>time.After(n * time.Second)\<close>), the log line.
\<close>

datatype action =
    http_Error string nat
  | WriteJSON Resources "error option"
  | WriteMessage nat "nat \<times> string"
  | TimeAfter nat
  | LogPrintln string
  | ConnClose

text \<open>Constants of the websocket library and of net/http.\<close>

definition CloseMessage :: nat where
  "CloseMessage = 8"

definition CloseNormalClosure :: nat where
  "CloseNormalClosure = 1000"

definition CloseInternalServerErr :: nat where
  "CloseInternalServerErr = 1011"

definition StatusInternalServerError :: nat where
  "StatusInternalServerError = 500"

text \<open>
  \<^verbatim>\<open>websocket.FormatCloseMessage\<close>: the payload of a close frame, two bytes of code
  followed by the reason, kept here as the pair of the two.
\<close>

definition FormatCloseMessage :: "nat \<Rightarrow> string \<Rightarrow> nat \<times> string" where
  "FormatCloseMessage closeCode text = (closeCode, text)"

section \<open>sendSnapshot (main.go, lines 97 to 194)\<close>

text \<open>The struct literal of lines 124 to 132.\<close>

definition DiskPartition_of :: "PartitionStat \<Rightarrow> UsageStat \<Rightarrow> DiskPartition" where
  "DiskPartition_of part usage =
     \<lparr>DP_Device = Device part,
      DP_Mountpoint = Mountpoint part,
      DP_Fstype = Fstype part,
      DP_Total = us_Total usage,
      DP_Used = us_Used usage,
      DP_Free = us_Free usage,
      DP_UsedPercent = us_UsedPercent usage\<rparr>"

text \<open>The loop over the partitions, lines 118 to 133.\<close>

fun partitions_loop ::
  "(PartitionStat \<times> (error + UsageStat)) list \<Rightarrow> DiskPartition slice \<Rightarrow> DiskPartition slice" where
  "partitions_loop [] diskPartitions = diskPartitions"
| "partitions_loop ((part, Inl err) # rest) diskPartitions =
     partitions_loop rest diskPartitions"
| "partitions_loop ((part, Inr usage) # rest) diskPartitions =
     partitions_loop rest (append_slice diskPartitions (DiskPartition_of part usage))"

text \<open>
  \<^verbatim>\<open>float64(n)\<close> for an unsigned 64-bit \<open>n\<close>: the nearest number with a significand of
  53 bits, a tie going to the even significand. Below \<open>2 ^ 53\<close> the conversion is
  exact. \<open>e\<close> is the number of low bits that do not fit.
\<close>

definition float64_of_uint64 :: "64 word \<Rightarrow> real" where
  "float64_of_uint64 n =
     (let k = unat n;
          e = length (filter (\<lambda>i. 2 ^ i \<le> k) [53..<64]);
          q = k div 2 ^ e;
          r = k mod 2 ^ e
      in if e = 0 then real k
         else if 2 ^ e < 2 * r \<or> (2 * r = 2 ^ e \<and> odd q) then real ((q + 1) * 2 ^ e)
         else real (q * 2 ^ e))"

text \<open>
  The struct literal of lines 158 to 167, given the name, the memory information and
  the status string that the loop has in hand.
\<close>

definition ProcessInfo_of :: "Process \<Rightarrow> string \<Rightarrow> MemoryInfoStat \<Rightarrow> string \<Rightarrow> ProcessInfo" where
  "ProcessInfo_of p name memInfo status =
     \<lparr>PID = Pid p,
      Name = name,
      CPUPercent = p_CPUPercent p,
      MemoryMB = float64_of_uint64 (RSS memInfo) / 1024 / 1024,
      MemoryPercent = p_MemoryPercent p,
      Status = status,
      Username = p_Username p,
      Cmdline = p_Cmdline p\<rparr>"

text \<open>The loop over the processes, lines 140 to 168.\<close>

fun processes_loop :: "Process list \<Rightarrow> ProcessInfo slice \<Rightarrow> ProcessInfo slice outcome" where
  "processes_loop [] processInfos = Returns processInfos"
| "processes_loop (p # rest) processInfos =
     (case p_Name p of
        Inl err \<Rightarrow> processes_loop rest processInfos
      | Inr name \<Rightarrow>
          (case p_MemoryInfo p of
             Inl err \<Rightarrow> processes_loop rest processInfos
           | Inr memInfo \<Rightarrow>
               (case firstOrEmpty (p_Status p) of
                  Returns status \<Rightarrow>
                    processes_loop rest
                      (append_slice processInfos (ProcessInfo_of p name memInfo status))
                | Panics \<Rightarrow> Panics
                | Blocks \<Rightarrow> Blocks)))"

text \<open>
  The closure itself. It returns the calls it made on the connection and the error it
  hands back (\<open>None\<close> for \<^verbatim>\<open>nil\<close>).
\<close>

definition sendSnapshot :: "string \<Rightarrow> probe \<Rightarrow> action list \<times> error option outcome" where
  "sendSnapshot hostname w =
     (case host_Uptime w of
        Inl err \<Rightarrow> ([], Returns (Some err))
      | Inr uptime \<Rightarrow>
     (case mem_VirtualMemory w of
        Inl err \<Rightarrow> ([], Returns (Some err))
      | Inr v \<Rightarrow>
     (case load_Avg w of
        Inl err \<Rightarrow> ([], Returns (Some err))
      | Inr avg \<Rightarrow>
     (case disk_Partitions w of
        Inl err \<Rightarrow> ([], Returns (Some err))
      | Inr partitions \<Rightarrow>
     (let diskPartitions = partitions_loop partitions NilSlice in
     (case process_Processes w of
        Inl err \<Rightarrow> ([], Returns (Some err))
      | Inr processes \<Rightarrow>
     (case processes_loop processes NilSlice of
        Panics \<Rightarrow> ([], Panics)
      | Blocks \<Rightarrow> ([], Blocks)
      | Returns processInfos \<Rightarrow>
     (let rs = \<lparr>Hostname = hostname,
                Uptime = uptime,
                Memory = \<lparr>Mem_Total = vm_Total v,
                           Mem_Available = vm_Available v,
                           Mem_Used = vm_Used v,
                           Mem_UsedPercent = vm_UsedPercent v,
                           Mem_Free = vm_Free v\<rparr>,
                LoadAverage = \<lparr>Load1 = avg_Load1 avg,
                                Load5 = avg_Load5 avg,
                                Load15 = avg_Load15 avg\<rparr>,
                Partitions = diskPartitions,
                Processes = sort_Slice (\<lambda>a b. CPUPercent a > CPUPercent b) processInfos\<rparr>
      in ([WriteJSON rs (conn_WriteJSON w)], Returns (conn_WriteJSON w))))))))))"

section \<open>sendClose (main.go, lines 218 to 221)\<close>

definition sendClose :: "error \<Rightarrow> action" where
  "sendClose err =
     WriteMessage CloseMessage (FormatCloseMessage CloseInternalServerErr (Error err))"

section \<open>wsHandler (main.go, lines 76 to 215)\<close>

record application =
  port :: int
  wg :: nat

text \<open>
  What \<^verbatim>\<open>select\<close> receives in the loop of lines 203 to 214: the request's context is
  done, or the one-second timer fired, and then \<^verbatim>\<open>sendSnapshot\<close> sees a state of the host.
\<close>

datatype event = CtxDone | Tick probe

text \<open>
  Where the handler stands once the events it was given are used up: it has returned,
  it has panicked, it is stuck in a call that never returns, or it waits in
  \<^verbatim>\<open>select\<close> for the next event.
\<close>

datatype status = Returned | Panicked | Blocked | Selecting

fun loop :: "string \<Rightarrow> event list \<Rightarrow> action list \<times> status" where
  "loop hostname [] = ([], Selecting)"
| "loop hostname (CtxDone # es) = ([LogPrintln ''client disconnected''], Returned)"
| "loop hostname (Tick w # es) =
     (case sendSnapshot hostname w of
        (as, Returns (Some err)) \<Rightarrow> (TimeAfter 1 # as @ [sendClose err], Returned)
      | (as, Returns None) \<Rightarrow>
          (case loop hostname es of (bs, st) \<Rightarrow> (TimeAfter 1 # as @ bs, st))
      | (as, Panics) \<Rightarrow> (TimeAfter 1 # as, Panicked)
      | (as, Blocks) \<Rightarrow> (TimeAfter 1 # as, Blocked))"

text \<open>
  The handler, given the result of the upgrade, the result of \<^verbatim>\<open>os.Hostname\<close>, the state
  of the host at the first snapshot and the events of the loop. The deferred
  \<^verbatim>\<open>conn.Close\<close> runs when the handler returns or panics.
\<close>

definition wsHandler ::
  "application \<Rightarrow> error option \<Rightarrow> error + string \<Rightarrow> probe \<Rightarrow> event list
     \<Rightarrow> application \<times> action list \<times> status" where
  "wsHandler app upgrade os_Hostname w0 events =
     (case upgrade of
        Some err \<Rightarrow> (app, [http_Error (Error err) StatusInternalServerError], Returned)
      | None \<Rightarrow>
     (case os_Hostname of
        Inl err \<Rightarrow> (app, [sendClose err, ConnClose], Returned)
      | Inr hostname \<Rightarrow>
     (case sendSnapshot hostname w0 of
        (as, Returns (Some err)) \<Rightarrow> (app, as @ [sendClose err, ConnClose], Returned)
      | (as, Panics) \<Rightarrow> (app, as @ [ConnClose], Panicked)
      | (as, Blocks) \<Rightarrow> (app, as, Blocked)
      | (as, Returns None) \<Rightarrow>
          (case loop hostname events of
             (bs, Selecting) \<Rightarrow> (app, as @ bs, Selecting)
           | (bs, Blocked) \<Rightarrow> (app, as @ bs, Blocked)
           | (bs, st) \<Rightarrow> (app, as @ bs @ [ConnClose], st)))))"

section \<open>What the websocket library does with a close message\<close>




section \<open>The library calls a run makes\<close>

text \<open>
  The second thing to observe of the closure is which lookups it makes, in order: the
  host-wide ones, \<^verbatim>\<open>disk.Usage\<close> by mount point, and the methods of a process by its
  process identifier.
\<close>

datatype call =
    Call_Uptime
  | Call_VirtualMemory
  | Call_Avg
  | Call_Partitions
  | Call_Usage string
  | Call_Processes
  | Call_Name "32 word"
  | Call_CPUPercent "32 word"
  | Call_MemoryInfo "32 word"
  | Call_Cmdline "32 word"
  | Call_MemoryPercent "32 word"
  | Call_Status "32 word"
  | Call_Username "32 word"

text \<open>The lookups of the loop over the partitions, lines 119 to 133.\<close>

fun partitions_calls :: "(PartitionStat \<times> (error + UsageStat)) list \<Rightarrow> call list" where
  "partitions_calls [] = []"
| "partitions_calls ((part, usage) # rest) =
     Call_Usage (Mountpoint part) # partitions_calls rest"

text \<open>
  The lookups of the loop over the processes, lines 141 to 168: the name first, and
  nothing more of the process when it fails; then the processor share and the memory
  information, and nothing more when the latter fails; then the other four.
\<close>

fun processes_calls :: "Process list \<Rightarrow> call list" where
  "processes_calls [] = []"
| "processes_calls (p # rest) =
     Call_Name (Pid p) #
     (case p_Name p of
        Inl err \<Rightarrow> processes_calls rest
      | Inr name \<Rightarrow>
          Call_CPUPercent (Pid p) # Call_MemoryInfo (Pid p) #
          (case p_MemoryInfo p of
             Inl err \<Rightarrow> processes_calls rest
           | Inr memInfo \<Rightarrow>
               Call_Cmdline (Pid p) # Call_MemoryPercent (Pid p) # Call_Status (Pid p) #
               Call_Username (Pid p) # processes_calls rest))"

text \<open>The lookups of one call of the closure, lines 98 to 168.\<close>

definition sendSnapshot_calls :: "probe \<Rightarrow> call list" where
  "sendSnapshot_calls w =
     Call_Uptime #
     (case host_Uptime w of
        Inl err \<Rightarrow> []
      | Inr uptime \<Rightarrow>
     Call_VirtualMemory #
     (case mem_VirtualMemory w of
        Inl err \<Rightarrow> []
      | Inr v \<Rightarrow>
     Call_Avg #
     (case load_Avg w of
        Inl err \<Rightarrow> []
      | Inr avg \<Rightarrow>
     Call_Partitions #
     (case disk_Partitions w of
        Inl err \<Rightarrow> []
      | Inr partitions \<Rightarrow>
     partitions_calls partitions @
     Call_Processes #
     (case process_Processes w of
        Inl err \<Rightarrow> []
      | Inr processes \<Rightarrow> processes_calls processes)))))"

text \<open>The mount points, and the processes, that a list of lookups asks about.\<close>

fun usage_lookups :: "call list \<Rightarrow> string list" where
  "usage_lookups [] = []"
| "usage_lookups (Call_Usage mountpoint # cs) = mountpoint # usage_lookups cs"
| "usage_lookups (c # cs) = usage_lookups cs"

fun name_lookups :: "call list \<Rightarrow> 32 word list" where
  "name_lookups [] = []"
| "name_lookups (Call_Name pid # cs) = pid # name_lookups cs"
| "name_lookups (c # cs) = name_lookups cs"

fun memory_lookups :: "call list \<Rightarrow> 32 word list" where
  "memory_lookups [] = []"
| "memory_lookups (Call_MemoryInfo pid # cs) = pid # memory_lookups cs"
| "memory_lookups (c # cs) = memory_lookups cs"


text \<open>
  The states of the host on which a run calls the closure, in order: line 197 once,
  then line 209 once for each timer that fires, until the closure returns an error or
  the context is done.
\<close>

fun loop_calls :: "string \<Rightarrow> event list \<Rightarrow> probe list" where
  "loop_calls hostname [] = []"
| "loop_calls hostname (CtxDone # es) = []"
| "loop_calls hostname (Tick w # es) =
     w # (case snd (sendSnapshot hostname w) of
            Returns None \<Rightarrow> loop_calls hostname es
          | _ \<Rightarrow> [])"


section \<open>The wire message\<close>

text \<open>
  \<^verbatim>\<open>conn.WriteJSON(rs)\<close> sends what \<^verbatim>\<open>encoding/json\<close> makes of \<open>rs\<close>: an object with one
  member for each field of the struct, named by the field's \<^verbatim>\<open>json\<close> tag, in the order
  of the declaration; a nil slice is \<^verbatim>\<open>null\<close>, another slice an array.
\<close>

datatype json =
    JNull
  | JString string
  | JNumber real
  | JArray "json list"
  | JObject "(string \<times> json) list"

definition uint64_json :: "64 word \<Rightarrow> json" where
  "uint64_json n = JNumber (real (unat n))"

definition int32_json :: "32 word \<Rightarrow> json" where
  "int32_json n = JNumber (real_of_int (sint n))"

fun slice_json :: "('a \<Rightarrow> json) \<Rightarrow> 'a slice \<Rightarrow> json" where
  "slice_json f NilSlice = JNull"
| "slice_json f (Slice xs) = JArray (map f xs)"

definition Memory_json :: "Memory \<Rightarrow> json" where
  "Memory_json m = JObject
     [(''total'', uint64_json (Mem_Total m)),
      (''available'', uint64_json (Mem_Available m)),
      (''used'', uint64_json (Mem_Used m)),
      (''usedPercent'', JNumber (Mem_UsedPercent m)),
      (''free'', uint64_json (Mem_Free m))]"

definition LoadAverage_json :: "LoadAverage \<Rightarrow> json" where
  "LoadAverage_json l = JObject
     [(''load1'', JNumber (Load1 l)),
      (''load5'', JNumber (Load5 l)),
      (''load15'', JNumber (Load15 l))]"

definition DiskPartition_json :: "DiskPartition \<Rightarrow> json" where
  "DiskPartition_json d = JObject
     [(''device'', JString (DP_Device d)),
      (''mountpoint'', JString (DP_Mountpoint d)),
      (''fstype'', JString (DP_Fstype d)),
      (''total'', uint64_json (DP_Total d)),
      (''used'', uint64_json (DP_Used d)),
      (''free'', uint64_json (DP_Free d)),
      (''usedPercent'', JNumber (DP_UsedPercent d))]"

definition ProcessInfo_json :: "ProcessInfo \<Rightarrow> json" where
  "ProcessInfo_json p = JObject
     [(''pid'', int32_json (PID p)),
      (''name'', JString (Name p)),
      (''cpuPercent'', JNumber (CPUPercent p)),
      (''memoryMB'', JNumber (MemoryMB p)),
      (''memoryPercent'', JNumber (MemoryPercent p)),
      (''status'', JString (Status p)),
      (''username'', JString (Username p)),
      (''cmdline'', JString (Cmdline p))]"

definition Resources_json :: "Resources \<Rightarrow> json" where
  "Resources_json rs = JObject
     [(''hostname'', JString (Hostname rs)),
      (''uptime'', uint64_json (Uptime rs)),
      (''memory'', Memory_json (Memory rs)),
      (''load_average'', LoadAverage_json (LoadAverage rs)),
      (''partitions'', slice_json DiskPartition_json (Partitions rs)),
      (''processes'', slice_json ProcessInfo_json (Processes rs))]"

text \<open>The names of the members of an object, and the member of a given name.\<close>

fun json_keys :: "json \<Rightarrow> string list" where
  "json_keys (JObject ms) = map fst ms"
| "json_keys _ = []"

fun json_member :: "json \<Rightarrow> string \<Rightarrow> json option" where
  "json_member (JObject ms) k = map_of ms k"
| "json_member _ k = None"

text \<open>The messages a run of the handler puts on the wire, in order.\<close>

fun wire :: "action list \<Rightarrow> json list" where
  "wire [] = []"
| "wire (WriteJSON rs None # as) = Resources_json rs # wire as"
| "wire (a # as) = wire as"

section \<open>serve (main.go, lines 231 to 304)\<close>

text \<open>
  The goroutine of lines 245 to 281: the values it sends on \<^verbatim>\<open>shutdownError\<close>, in order.
  It waits for a signal (\<open>quit\<close> says whether one ever comes), calls \<^verbatim>\<open>srv.Shutdown\<close>
  under the twenty-second context (\<open>shutdown\<close> is what that call returns), sends the
  error if there is one, waits for the counter of the wait group to be zero and sends
  \<^verbatim>\<open>nil\<close>. Nothing in main.go calls \<^verbatim>\<open>Add\<close> or \<^verbatim>\<open>Done\<close>, so a counter that is not zero
  stays so and the wait never ends.
\<close>

definition background :: "application \<Rightarrow> bool \<Rightarrow> error option \<Rightarrow> error option list" where
  "background app quit shutdown =
     (if \<not> quit then []
      else (case shutdown of Some err \<Rightarrow> [Some err] | None \<Rightarrow> [])
           @ (if wg app = 0 then [None] else []))"

text \<open>
  \<^verbatim>\<open>serve\<close>, given the error \<^verbatim>\<open>srv.ListenAndServe\<close> returns (it never returns \<^verbatim>\<open>nil\<close>):
  \<^verbatim>\<open>http.ErrServerClosed\<close> as soon as \<^verbatim>\<open>Shutdown\<close> is called, another error when the
  listener fails.
\<close>

definition serve :: "application \<Rightarrow> error \<Rightarrow> bool \<Rightarrow> error option \<Rightarrow> error option outcome" where
  "serve app listenErr quit shutdown =
     (if errors_Is listenErr ErrServerClosed then Returns (Some listenErr)
      else (case background app quit shutdown of
              [] \<Rightarrow> Blocks
            | err # _ \<Rightarrow> (if err \<noteq> None then Returns err else Returns None)))"

section \<open>Reading a run\<close>

text \<open>The snapshots a run handed to \<^verbatim>\<open>WriteJSON\<close>, in order.\<close>

fun snapshots :: "action list \<Rightarrow> Resources list" where
  "snapshots [] = []"
| "snapshots (WriteJSON rs res # as) = rs # snapshots as"
| "snapshots (a # as) = snapshots as"

section \<open>Concrete hosts\<close>

text \<open>The application as \<^verbatim>\<open>main\<close> builds it: port 8080, a wait group at zero.\<close>

definition app0 :: application where
  "app0 = \<lparr>port = 8080, wg = 0\<rparr>"

text \<open>
  A host with no partition and no process, every call succeeding; the snapshot the
  closure builds from it under the host name h1.
\<close>

definition scenario_A :: probe where
  "scenario_A =
     \<lparr>host_Uptime = Inr 100,
      mem_VirtualMemory = Inr \<lparr>vm_Total = 1000, vm_Available = 600, vm_Used = 400,
                                vm_UsedPercent = 40, vm_Free = 600\<rparr>,
      load_Avg = Inr \<lparr>avg_Load1 = 1, avg_Load5 = 1, avg_Load15 = 1\<rparr>,
      disk_Partitions = Inr [],
      process_Processes = Inr [],
      conn_WriteJSON = None\<rparr>"

definition snapshot_A :: Resources where
  "snapshot_A =
     \<lparr>Hostname = ''h1'',
      Uptime = 100,
      Memory = \<lparr>Mem_Total = 1000, Mem_Available = 600, Mem_Used = 400,
                 Mem_UsedPercent = 40, Mem_Free = 600\<rparr>,
      LoadAverage = \<lparr>Load1 = 1, Load5 = 1, Load15 = 1\<rparr>,
      Partitions = NilSlice,
      Processes = NilSlice\<rparr>"

text \<open>The same host when \<^verbatim>\<open>host.Uptime\<close> fails.\<close>

definition uptime_fails :: probe where
  "uptime_fails = scenario_A\<lparr>host_Uptime := Inl (Err ''uptime unavailable'')\<rparr>"



text \<open>A sleeping process that uses no processor time, and one with a name and a load.\<close>

definition idle_process :: "32 word \<Rightarrow> Process" where
  "idle_process pid =
     \<lparr>Pid = pid, p_Name = Inr ''sleep'', p_CPUPercent = 0,
      p_MemoryInfo = Inr \<lparr>RSS = 1048576\<rparr>, p_Cmdline = ''sleep 60'',
      p_MemoryPercent = 0, p_Status = [''sleep''], p_Username = ''root''\<rparr>"

definition busy_process :: "32 word \<Rightarrow> string \<Rightarrow> real \<Rightarrow> Process" where
  "busy_process pid name cpu = (idle_process pid)\<lparr>p_Name := Inr name, p_CPUPercent := cpu\<rparr>"

text \<open>A host with two idle processes.\<close>

definition two_idle :: probe where
  "two_idle = scenario_A\<lparr>process_Processes := Inr [idle_process 1, idle_process 2]\<rparr>"

text \<open>
  A host with two partitions, the usage of the second unreadable, and four processes:
  A at 10 percent, one whose name cannot be read, B at 90 percent, one whose memory
  information cannot be read. Below it, the snapshot the closure builds from it.
\<close>

definition mixed :: probe where
  "mixed = scenario_A
     \<lparr>disk_Partitions := Inr
        [(\<lparr>Device = ''/dev/sda1'', Mountpoint = ''/'', Fstype = ''ext4''\<rparr>,
          Inr \<lparr>us_Total = 100, us_Used = 40, us_Free = 60, us_UsedPercent = 40\<rparr>),
         (\<lparr>Device = ''/dev/sdb1'', Mountpoint = ''/mnt'', Fstype = ''ext4''\<rparr>,
          Inl (Err ''permission denied''))],
      process_Processes := Inr
        [busy_process 1 ''A'' 10,
         (idle_process 2)\<lparr>p_Name := Inl (Err ''no such process'')\<rparr>,
         busy_process 3 ''B'' 90,
         (idle_process 4)\<lparr>p_MemoryInfo := Inl (Err ''no such process'')\<rparr>]\<rparr>"

definition snapshot_mixed :: Resources where
  "snapshot_mixed = snapshot_A
     \<lparr>Partitions := Slice
        [\<lparr>DP_Device = ''/dev/sda1'', DP_Mountpoint = ''/'', DP_Fstype = ''ext4'',
          DP_Total = 100, DP_Used = 40, DP_Free = 60, DP_UsedPercent = 40\<rparr>],
      Processes := Slice
        [\<lparr>PID = 3, Name = ''B'', CPUPercent = 90, MemoryMB = 1, MemoryPercent = 0,
          Status = ''sleep'', Username = ''root'', Cmdline = ''sleep 60''\<rparr>,
         \<lparr>PID = 1, Name = ''A'', CPUPercent = 10, MemoryMB = 1, MemoryPercent = 0,
          Status = ''sleep'', Username = ''root'', Cmdline = ''sleep 60''\<rparr>]\<rparr>"

section \<open>Slices, the sort and the two loops\<close>

lemma float64_of_uint64_exact:
  assumes "unat n < 2 ^ 53"
  shows "float64_of_uint64 n = real (unat n)"
proof -
  have "\<not> 2 ^ i \<le> unat n" if "53 \<le> i" for i :: nat
  proof -
    from that have "(2::nat) ^ 53 \<le> 2 ^ i" by (intro power_increasing) simp_all
    with assms show ?thesis by simp
  qed
  then have "filter (\<lambda>i. 2 ^ i \<le> unat n) [53..<64] = []"
    unfolding filter_empty_conv by (metis atLeastLessThan_iff set_upt)
  then show ?thesis by (simp add: float64_of_uint64_def)
qed

lemma firstOrEmpty_eq: "firstOrEmpty s = Returns (case s of [] \<Rightarrow> '''' | x # _ \<Rightarrow> x)"
  by (cases s) (simp_all add: firstOrEmpty_def slice_index_def)

lemma foldl_append_slice_elems: "elems (foldl append_slice acc xs) = elems acc @ xs"
proof (induction xs arbitrary: acc)
  case (Cons x xs)
  then show ?case by (cases acc) simp_all
qed simp

lemma foldl_append_slice_Nil:
  "foldl append_slice NilSlice xs = (if xs = [] then NilSlice else Slice xs)"
proof (cases xs)
  case (Cons x xs')
  have "foldl append_slice (Slice ys) zs = Slice (ys @ zs)" for ys zs :: "'a list"
    by (induction zs arbitrary: ys) simp_all
  with Cons show ?thesis by simp
qed simp

lemma partitions_loop_eq:
  "partitions_loop ps acc =
     foldl append_slice acc
       (map (\<lambda>(part, usage). DiskPartition_of part (projr usage))
          (filter (\<lambda>(part, usage). \<not> isl usage) ps))"
  by (induction ps acc rule: partitions_loop.induct) simp_all

lemma processes_loop_eq:
  "processes_loop ps acc = Returns
     (foldl append_slice acc
       (map (\<lambda>p. ProcessInfo_of p (projr (p_Name p)) (projr (p_MemoryInfo p))
                 (case p_Status p of [] \<Rightarrow> '''' | st # _ \<Rightarrow> st))
          (filter (\<lambda>p. \<not> isl (p_Name p) \<and> \<not> isl (p_MemoryInfo p)) ps)))"
  by (induction ps arbitrary: acc) (simp_all add: firstOrEmpty_eq split: sum.splits)

lemma mset_insert_by: "mset (insert_by lt x ys) = add_mset x (mset ys)"
  by (induction ys) simp_all

lemma mset_insertion_sort: "mset (insertion_sort lt xs acc) = mset xs + mset acc"
  by (induction xs arbitrary: acc) (simp_all add: mset_insert_by)

lemma insertion_sort_Nil_iff: "insertion_sort lt xs [] = [] \<longleftrightarrow> xs = []"
  using mset_insertion_sort [of lt xs "[]"]
  by (metis add.right_neutral mset.simps(1) mset_zero_iff)

lemma set_insert_by: "set (insert_by lt x ys) = insert x (set ys)"
  by (induction ys) auto

lemma sorted_insert_by:
  fixes f :: "'a \<Rightarrow> real"
  shows "sorted_wrt (\<lambda>a b. f a \<ge> f b) ys \<Longrightarrow>
    sorted_wrt (\<lambda>a b. f a \<ge> f b) (insert_by (\<lambda>a b. f a > f b) x ys)"
  by (induction ys) (auto simp: set_insert_by)

lemma sorted_insertion_sort:
  fixes f :: "'a \<Rightarrow> real"
  shows "sorted_wrt (\<lambda>a b. f a \<ge> f b) acc \<Longrightarrow>
    sorted_wrt (\<lambda>a b. f a \<ge> f b) (insertion_sort (\<lambda>a b. f a > f b) xs acc)"
  by (induction xs arbitrary: acc) (simp_all add: sorted_insert_by)

lemma elems_sort_Slice: "elems (sort_Slice lt s) = insertion_sort lt (elems s) []"
  by (cases s) simp_all

section \<open>What one call of the closure does\<close>

text \<open>
  The closure never panics and never blocks: it returns an error before it writes
  anything, or it writes one snapshot and returns what the write returned.
\<close>

lemma sendSnapshot_cases:
  "(\<exists>err. sendSnapshot h w = ([], Returns (Some err))) \<or>
   (\<exists>rs. sendSnapshot h w = ([WriteJSON rs (conn_WriteJSON w)], Returns (conn_WriteJSON w)))"
  by (simp add: sendSnapshot_def processes_loop_eq Let_def split: sum.splits)


lemma sendSnapshot_sorted:
  assumes "sendSnapshot h w = ([WriteJSON rs res], out)"
  shows "sorted_wrt (\<lambda>a b. CPUPercent a \<ge> CPUPercent b) (elems (Processes rs))"
  using assms
  by (auto simp: sendSnapshot_def processes_loop_eq Let_def elems_sort_Slice
      intro!: sorted_insertion_sort split: sum.splits)

lemma sendSnapshot_scenario_A:
  "sendSnapshot ''h1'' scenario_A = ([WriteJSON snapshot_A None], Returns None)"
  by (simp add: sendSnapshot_def scenario_A_def snapshot_A_def)

lemma sendSnapshot_uptime_fails:
  "sendSnapshot ''h1'' uptime_fails = ([], Returns (Some (Err ''uptime unavailable'')))"
  by (simp add: sendSnapshot_def scenario_A_def uptime_fails_def)

lemma sendSnapshot_mixed:
  "sendSnapshot ''h1'' mixed = ([WriteJSON snapshot_mixed None], Returns None)"
  by (simp add: sendSnapshot_def mixed_def scenario_A_def snapshot_mixed_def snapshot_A_def
      busy_process_def idle_process_def firstOrEmpty_def slice_index_def ProcessInfo_of_def
      DiskPartition_of_def float64_of_uint64_exact)


section \<open>The lookups of one call of the closure\<close>

lemma usage_lookups_append: "usage_lookups (xs @ ys) = usage_lookups xs @ usage_lookups ys"
  by (induction xs rule: usage_lookups.induct) simp_all

lemma name_lookups_append: "name_lookups (xs @ ys) = name_lookups xs @ name_lookups ys"
  by (induction xs rule: name_lookups.induct) simp_all

lemma memory_lookups_append: "memory_lookups (xs @ ys) = memory_lookups xs @ memory_lookups ys"
  by (induction xs rule: memory_lookups.induct) simp_all

lemma lookups_partitions_calls:
  "usage_lookups (partitions_calls ps) = map (\<lambda>(part, usage). Mountpoint part) ps"
  "name_lookups (partitions_calls ps) = []"
  "memory_lookups (partitions_calls ps) = []"
  by (induction ps) auto

lemma lookups_processes_calls:
  "usage_lookups (processes_calls ps) = []"
  "name_lookups (processes_calls ps) = map Pid ps"
  "memory_lookups (processes_calls ps) = map Pid (filter (\<lambda>p. \<not> isl (p_Name p)) ps)"
  by (induction ps) (auto split: sum.splits)

section \<open>What a run of the handler does\<close>

text \<open>
  While every call of the closure succeeds, the loop alternates one second of waiting
  and one write.
\<close>

lemma loop_prefix:
  assumes "\<forall>w \<in> set ws. sendSnapshot h w = ([WriteJSON (r w) None], Returns None)"
  shows "loop h (map Tick ws @ rest) =
    (concat (map (\<lambda>w. [TimeAfter 1, WriteJSON (r w) None]) ws) @ fst (loop h rest),
     snd (loop h rest))"
  using assms by (induction ws) (simp_all add: case_prod_beta)

lemma wsHandler_prefix:
  assumes "\<forall>w \<in> set (w0 # ws). sendSnapshot h w = ([WriteJSON (r w) None], Returns None)"
  shows "wsHandler app None (Inr h) w0 (map Tick ws @ rest) =
    (app,
     WriteJSON (r w0) None # concat (map (\<lambda>w. [TimeAfter 1, WriteJSON (r w) None]) ws)
       @ (case loop h rest of
            (bs, Selecting) \<Rightarrow> bs | (bs, Blocked) \<Rightarrow> bs | (bs, st) \<Rightarrow> bs @ [ConnClose]),
     snd (loop h rest))"
proof -
  from assms have w0: "sendSnapshot h w0 = ([WriteJSON (r w0) None], Returns None)"
    and ws: "\<forall>w \<in> set ws. sendSnapshot h w = ([WriteJSON (r w) None], Returns None)"
    by simp_all
  show ?thesis
    unfolding wsHandler_def
    by (simp add: w0 loop_prefix [OF ws] split: prod.splits status.splits)
qed

text \<open>The first thing a run does is never a wait.\<close>

lemma wsHandler_first_action:
  "\<exists>a t. fst (snd (wsHandler app upgrade os_Hostname w0 events)) = a # t \<and>
     (\<forall>d. a \<noteq> TimeAfter d)"
proof (cases upgrade)
  case (Some e)
  then show ?thesis by (simp add: wsHandler_def)
next
  case None
  show ?thesis
  proof (cases os_Hostname)
    case (Inl e)
    with None show ?thesis by (simp add: wsHandler_def sendClose_def)
  next
    case (Inr h)
    from sendSnapshot_cases [of h w0] None Inr show ?thesis
      by (auto simp: wsHandler_def sendClose_def split: option.splits prod.splits status.splits)
  qed
qed

text \<open>Every snapshot a run writes was built by a call of the closure.\<close>

lemma loop_WriteJSON:
  "WriteJSON rs res \<in> set (fst (loop h es)) \<Longrightarrow>
     \<exists>w. sendSnapshot h w = ([WriteJSON rs res], Returns res)"
proof (induction h es rule: loop.induct)
  case (3 h w es)
  from sendSnapshot_cases [of h w] show ?case
  proof
    assume "\<exists>err. sendSnapshot h w = ([], Returns (Some err))"
    with 3 show ?thesis by (auto simp: sendClose_def)
  next
    assume "\<exists>rs. sendSnapshot h w =
      ([WriteJSON rs (conn_WriteJSON w)], Returns (conn_WriteJSON w))"
    then obtain rs' where s: "sendSnapshot h w =
      ([WriteJSON rs' (conn_WriteJSON w)], Returns (conn_WriteJSON w))" ..
    show ?thesis
    proof (cases "conn_WriteJSON w")
      case None
      with s 3 show ?thesis by (auto split: prod.splits)
    next
      case (Some e)
      with s 3 show ?thesis by (auto simp: sendClose_def)
    qed
  qed
qed simp_all

lemma wsHandler_WriteJSON:
  assumes "WriteJSON rs res \<in> set (fst (snd (wsHandler app up hn w0 es)))"
  shows "\<exists>h w. sendSnapshot h w = ([WriteJSON rs res], Returns res)"
proof (cases up)
  case (Some e)
  with assms show ?thesis by (simp add: wsHandler_def)
next
  case None
  show ?thesis
  proof (cases hn)
    case (Inl e)
    with None assms show ?thesis by (simp add: wsHandler_def sendClose_def)
  next
    case (Inr h)
    from sendSnapshot_cases [of h w0] show ?thesis
    proof
      assume "\<exists>err. sendSnapshot h w0 = ([], Returns (Some err))"
      with None Inr assms show ?thesis by (auto simp: wsHandler_def sendClose_def)
    next
      assume "\<exists>rs. sendSnapshot h w0 =
        ([WriteJSON rs (conn_WriteJSON w0)], Returns (conn_WriteJSON w0))"
      then obtain rs' where s: "sendSnapshot h w0 =
        ([WriteJSON rs' (conn_WriteJSON w0)], Returns (conn_WriteJSON w0))" ..
      show ?thesis
      proof (cases "conn_WriteJSON w0")
        case (Some e)
        with s None Inr assms show ?thesis by (auto simp: wsHandler_def sendClose_def)
      next
        case N: None
        with s None Inr assms
        have "WriteJSON rs res = WriteJSON rs' None \<or> WriteJSON rs res \<in> set (fst (loop h es))"
          by (auto simp: wsHandler_def split: prod.splits status.splits)
        then show ?thesis
        proof
          assume "WriteJSON rs res = WriteJSON rs' None"
          with s N show ?thesis by auto
        next
          assume "WriteJSON rs res \<in> set (fst (loop h es))"
          then show ?thesis by (blast dest: loop_WriteJSON)
        qed
      qed
    qed
  qed
qed

lemma snapshots_set: "rs \<in> set (snapshots t) \<longleftrightarrow> (\<exists>res. WriteJSON rs res \<in> set t)"
  by (induction t rule: snapshots.induct) auto





text \<open>In the loop, the closure is called once for each timer that fires.\<close>

lemma loop_calls_timers:
  "length (loop_calls h es) = length (filter (\<lambda>a. a = TimeAfter 1) (fst (loop h es)))"
proof (induction h es rule: loop.induct)
  case (3 h w es)
  from sendSnapshot_cases [of h w] show ?case
  proof
    assume "\<exists>err. sendSnapshot h w = ([], Returns (Some err))"
    then show ?thesis by (auto simp: sendClose_def)
  next
    assume "\<exists>rs. sendSnapshot h w =
      ([WriteJSON rs (conn_WriteJSON w)], Returns (conn_WriteJSON w))"
    then obtain rs where s: "sendSnapshot h w =
      ([WriteJSON rs (conn_WriteJSON w)], Returns (conn_WriteJSON w))" ..
    show ?thesis
    proof (cases "conn_WriteJSON w")
      case None
      with s 3 show ?thesis by (auto split: prod.splits)
    next
      case (Some e)
      with s show ?thesis by (auto simp: sendClose_def)
    qed
  qed
qed simp_all

section \<open>The claims\<close>

subsection \<open>C1: what serve returns after a graceful shutdown\<close>

text \<open>
  C1 says that \<^verbatim>\<open>serve\<close> returns no error when the shutdown was graceful. The code does
  otherwise. A signal arrives, no counter is held, \<^verbatim>\<open>srv.Shutdown\<close> returns \<^verbatim>\<open>nil\<close>
  within its twenty seconds; \<^verbatim>\<open>ListenAndServe\<close> has returned \<^verbatim>\<open>http.ErrServerClosed\<close>,
  line 290 tests \<^verbatim>\<open>errors.Is(err, http.ErrServerClosed)\<close> without the negation that
  the comment of lines 285 to 288 announces, and \<^verbatim>\<open>serve\<close> returns that error.
\<close>

theorem serve_graceful_returns_ErrServerClosed:
  "serve \<lparr>port = 8080, wg = 0\<rparr> ErrServerClosed True None = Returns (Some ErrServerClosed)"
  by (simp add: serve_def errors_Is_def)

subsection \<open>C2: the handler and the wait group\<close>

text \<open>
  C2 as stated fails: a session that is open and waits in \<^verbatim>\<open>select\<close>, its first
  snapshot sent, has not added one to the counter of the wait group.
\<close>

theorem wsHandler_open_no_increment:
  "snd (snd (wsHandler app0 None (Inr ''h1'') scenario_A [])) = Selecting \<and>
   wg (fst (wsHandler app0 None (Inr ''h1'') scenario_A [])) \<noteq> wg app0 + 1"
  by (simp add: wsHandler_def sendSnapshot_scenario_A)

text \<open>
  C2, amended: the handler never changes the counter. Whatever the upgrade, the host
  name lookup, the host and the events, and wherever the run stands (returned by any
  path, or still open), the application it leaves is the one it was given.
\<close>

theorem wsHandler_leaves_wg:
  "fst (wsHandler app upgrade os_Hostname w0 events) = app"
  using sendSnapshot_cases [of "projr os_Hostname" w0]
  by (auto simp: wsHandler_def
      split: option.splits sum.splits prod.splits status.splits outcome.splits)

subsection \<open>C3: the first snapshot at once, then one each second\<close>

text \<open>
  C3: once the connection is upgraded and the host name known, the first thing the
  handler does is write the first snapshot, with no wait before it; after it, as long
  as the calls of the closure succeed, each further write comes after exactly one
  one-second timer, in the order of the ticks. What follows the successful ticks is
  what the loop does on the remaining events. The last conjunct says that no run at
  all starts with a wait.
\<close>

theorem first_snapshot_then_one_per_second:
  assumes "\<forall>w \<in> set (w0 # ws). sendSnapshot h w = ([WriteJSON (r w) None], Returns None)"
  shows "wsHandler app None (Inr h) w0 (map Tick ws @ rest) =
      (app,
       WriteJSON (r w0) None # concat (map (\<lambda>w. [TimeAfter 1, WriteJSON (r w) None]) ws)
         @ (case loop h rest of
              (bs, Selecting) \<Rightarrow> bs | (bs, Blocked) \<Rightarrow> bs | (bs, st) \<Rightarrow> bs @ [ConnClose]),
       snd (loop h rest))
    \<and> (\<exists>a t. fst (snd (wsHandler app upgrade os_Hostname w1 events)) = a # t \<and>
          (\<forall>d. a \<noteq> TimeAfter d))"
  using wsHandler_prefix [OF assms] wsHandler_first_action by blast

theorem first_snapshot_then_one_per_second_witness:
  "wsHandler app0 None (Inr ''h1'') scenario_A [Tick scenario_A, Tick scenario_A] =
     (app0,
      [WriteJSON snapshot_A None, TimeAfter 1, WriteJSON snapshot_A None,
       TimeAfter 1, WriteJSON snapshot_A None],
      Selecting)"
  using first_snapshot_then_one_per_second
    [of scenario_A "[scenario_A, scenario_A]" "''h1''" "\<lambda>w. snapshot_A" app0 "[]"]
  by (simp add: sendSnapshot_scenario_A)

subsection \<open>C4: the order of the processes\<close>

text \<open>
  C4 as stated fails: with two processes at the same processor share, the snapshot
  holds two adjacent entries of which the first is not strictly greater.
\<close>

theorem equal_cpu_not_strictly_descending:
  "\<not> list_all (\<lambda>rs. successively (\<lambda>a b. CPUPercent a > CPUPercent b) (elems (Processes rs)))
       (snapshots (fst (snd (wsHandler app0 None (Inr ''h1'') two_idle []))))"
  by (simp add: wsHandler_def sendSnapshot_def two_idle_def scenario_A_def idle_process_def
      firstOrEmpty_def slice_index_def ProcessInfo_of_def)

text \<open>
  C4, amended: in every snapshot that any run of the handler writes, the processes are
  in descending order of \<^verbatim>\<open>cpuPercent\<close>, equal values allowed: each entry's value is
  greater than or equal to that of every later entry.
\<close>

theorem processes_sorted_descending:
  "list_all (\<lambda>rs. sorted_wrt (\<lambda>a b. CPUPercent a \<ge> CPUPercent b) (elems (Processes rs)))
     (snapshots (fst (snd (wsHandler app upgrade os_Hostname w0 events))))"
proof (unfold list_all_iff, rule ballI)
  fix rs
  assume "rs \<in> set (snapshots (fst (snd (wsHandler app upgrade os_Hostname w0 events))))"
  then obtain res
    where "WriteJSON rs res \<in> set (fst (snd (wsHandler app upgrade os_Hostname w0 events)))"
    by (auto simp: snapshots_set)
  then obtain h w where "sendSnapshot h w = ([WriteJSON rs res], Returns res)"
    by (blast dest: wsHandler_WriteJSON)
  then show "sorted_wrt (\<lambda>a b. CPUPercent a \<ge> CPUPercent b) (elems (Processes rs))"
    by (rule sendSnapshot_sorted)
qed

subsection \<open>C5: cancellation\<close>

text \<open>
  C5 as stated fails: when the context is done between two ticks, the run holds no
  close frame with the normal closure code, whatever its reason.
\<close>

theorem cancellation_sends_no_close_frame:
  "\<not> (\<exists>reason. WriteMessage CloseMessage (FormatCloseMessage CloseNormalClosure reason)
        \<in> set (fst (snd (wsHandler app0 None (Inr ''h1'') scenario_A [CtxDone]))))"
  by (simp add: wsHandler_def sendSnapshot_scenario_A)

text \<open>
  C5, amended: when the context is done while the session waits between two ticks, the
  handler logs that the client disconnected and returns, which closes the connection;
  it writes no close frame, and in particular none with the internal error code, and
  it ignores every later event.
\<close>

theorem cancellation_logs_and_returns:
  assumes "\<forall>w \<in> set (w0 # ws). sendSnapshot h w = ([WriteJSON (r w) None], Returns None)"
  shows "wsHandler app None (Inr h) w0 (map Tick ws @ CtxDone # rest) =
    (app,
     WriteJSON (r w0) None # concat (map (\<lambda>w. [TimeAfter 1, WriteJSON (r w) None]) ws)
       @ [LogPrintln ''client disconnected'', ConnClose],
     Returned)"
  using wsHandler_prefix [OF assms, of app "CtxDone # rest"] by simp

theorem cancellation_logs_and_returns_witness:
  "wsHandler app0 None (Inr ''h1'') scenario_A [Tick scenario_A, CtxDone, Tick scenario_A] =
     (app0,
      [WriteJSON snapshot_A None, TimeAfter 1, WriteJSON snapshot_A None,
       LogPrintln ''client disconnected'', ConnClose],
      Returned)"
  using cancellation_logs_and_returns
    [of scenario_A "[scenario_A]" "''h1''" "\<lambda>w. snapshot_A" app0 "[Tick scenario_A]"]
  by (simp add: sendSnapshot_scenario_A)

subsection \<open>C6: a failure of the provider\<close>




subsection \<open>C7: the wire message\<close>

text \<open>
  C7 as stated fails on the host with no partition and no process: the memory object
  of the message has a fifth member, and neither \<^verbatim>\<open>partitions\<close> nor \<^verbatim>\<open>processes\<close> is
  the empty array.
\<close>

theorem scenario_A_memory_free_and_null_arrays:
  "\<not> list_all (\<lambda>msg. \<exists>m. json_member msg ''memory'' = Some m \<and>
          json_keys m = [''total'', ''available'', ''used'', ''usedPercent''])
       (wire (fst (snd (wsHandler app0 None (Inr ''h1'') scenario_A [])))) \<and>
   \<not> list_all (\<lambda>msg. json_member msg ''partitions'' = Some (JArray []))
       (wire (fst (snd (wsHandler app0 None (Inr ''h1'') scenario_A [])))) \<and>
   \<not> list_all (\<lambda>msg. json_member msg ''processes'' = Some (JArray []))
       (wire (fst (snd (wsHandler app0 None (Inr ''h1'') scenario_A []))))"
  by (simp add: wsHandler_def sendSnapshot_scenario_A snapshot_A_def Resources_json_def
      Memory_json_def)

text \<open>
  C7, amended: the message of a snapshot is an object with exactly the six members
  hostname, uptime, memory, load_average, partitions and processes; they hold the host
  name and the values the library calls returned; the memory object has exactly the
  five members total, available, used, usedPercent and free; \<^verbatim>\<open>partitions\<close> is
  \<^verbatim>\<open>null\<close> when no partition was kept and the array of the kept ones otherwise, and
  likewise \<^verbatim>\<open>processes\<close>.
\<close>

theorem wire_message_members:
  assumes "sendSnapshot h w = ([WriteJSON rs res], out)"
    and "host_Uptime w = Inr uptime"
    and "mem_VirtualMemory w = Inr v"
    and "load_Avg w = Inr avg"
    and "disk_Partitions w = Inr parts"
    and "process_Processes w = Inr procs"
  shows "Resources_json rs = JObject
     [(''hostname'', JString h),
      (''uptime'', uint64_json uptime),
      (''memory'', JObject
         [(''total'', uint64_json (vm_Total v)),
          (''available'', uint64_json (vm_Available v)),
          (''used'', uint64_json (vm_Used v)),
          (''usedPercent'', JNumber (vm_UsedPercent v)),
          (''free'', uint64_json (vm_Free v))]),
      (''load_average'', JObject
         [(''load1'', JNumber (avg_Load1 avg)),
          (''load5'', JNumber (avg_Load5 avg)),
          (''load15'', JNumber (avg_Load15 avg))]),
      (''partitions'',
         if filter (\<lambda>(part, usage). \<not> isl usage) parts = [] then JNull
         else JArray (map DiskPartition_json (elems (Partitions rs)))),
      (''processes'',
         if filter (\<lambda>p. \<not> isl (p_Name p) \<and> \<not> isl (p_MemoryInfo p)) procs = [] then JNull
         else JArray (map ProcessInfo_json (elems (Processes rs))))]"
  using assms
  by (auto simp: sendSnapshot_def processes_loop_eq partitions_loop_eq Let_def
      Resources_json_def Memory_json_def LoadAverage_json_def foldl_append_slice_Nil
      insertion_sort_Nil_iff)

theorem wire_message_members_witness:
  "sendSnapshot ''h1'' scenario_A = ([WriteJSON snapshot_A None], Returns None) \<and>
   Resources_json snapshot_A = JObject
     [(''hostname'', JString ''h1''),
      (''uptime'', JNumber 100),
      (''memory'', JObject
         [(''total'', JNumber 1000),
          (''available'', JNumber 600),
          (''used'', JNumber 400),
          (''usedPercent'', JNumber 40),
          (''free'', JNumber 600)]),
      (''load_average'', JObject
         [(''load1'', JNumber 1), (''load5'', JNumber 1), (''load15'', JNumber 1)]),
      (''partitions'', JNull),
      (''processes'', JNull)]"
proof -
  have s: "sendSnapshot ''h1'' scenario_A = ([WriteJSON snapshot_A None], Returns None)"
    by (rule sendSnapshot_scenario_A)
  have u: "host_Uptime scenario_A = Inr 100"
    and m: "mem_VirtualMemory scenario_A =
      Inr \<lparr>vm_Total = 1000, vm_Available = 600, vm_Used = 400, vm_UsedPercent = 40,
           vm_Free = 600\<rparr>"
    and l: "load_Avg scenario_A = Inr \<lparr>avg_Load1 = 1, avg_Load5 = 1, avg_Load15 = 1\<rparr>"
    and p: "disk_Partitions scenario_A = Inr []"
    and q: "process_Processes scenario_A = Inr []"
    by (simp_all add: scenario_A_def)
  from wire_message_members [OF s u m l p q] s show ?thesis
    by (simp add: uint64_json_def)
qed

subsection \<open>C8: entries whose lookup fails\<close>

text \<open>
  C8: in the snapshot the closure writes, the partitions are, in their order, those
  whose usage lookup succeeded, each with the device, mount point and file system type
  of the partition and the total, used, free and percentage of its usage; the
  processes are, up to the order the sort gives them, those whose name and memory
  information could both be read, each with its identifier, name, processor share,
  resident set size in megabytes, memory share, first status string, user name and
  command line. Every other partition and process is left out. Nothing is asked
  twice: the closure asks for the usage of each partition once, in order, for the name
  of each process once, and for the memory information once of each process whose name
  it could read.
\<close>

theorem failed_lookups_omitted:
  assumes "sendSnapshot h w = ([WriteJSON rs res], out)"
    and "disk_Partitions w = Inr parts"
    and "process_Processes w = Inr procs"
  shows "elems (Partitions rs) =
      map (\<lambda>(part, usage).
             \<lparr>DP_Device = Device part,
              DP_Mountpoint = Mountpoint part,
              DP_Fstype = Fstype part,
              DP_Total = us_Total (projr usage),
              DP_Used = us_Used (projr usage),
              DP_Free = us_Free (projr usage),
              DP_UsedPercent = us_UsedPercent (projr usage)\<rparr>)
        (filter (\<lambda>(part, usage). \<not> isl usage) parts)
    \<and> mset (elems (Processes rs)) =
      mset (map (\<lambda>p.
                   \<lparr>PID = Pid p,
                    Name = projr (p_Name p),
                    CPUPercent = p_CPUPercent p,
                    MemoryMB = float64_of_uint64 (RSS (projr (p_MemoryInfo p))) / 1024 / 1024,
                    MemoryPercent = p_MemoryPercent p,
                    Status = (case p_Status p of [] \<Rightarrow> '''' | st # _ \<Rightarrow> st),
                    Username = p_Username p,
                    Cmdline = p_Cmdline p\<rparr>)
             (filter (\<lambda>p. \<not> isl (p_Name p) \<and> \<not> isl (p_MemoryInfo p)) procs))
    \<and> usage_lookups (sendSnapshot_calls w) = map (\<lambda>(part, usage). Mountpoint part) parts
    \<and> name_lookups (sendSnapshot_calls w) = map Pid procs
    \<and> memory_lookups (sendSnapshot_calls w) = map Pid (filter (\<lambda>p. \<not> isl (p_Name p)) procs)"
proof -
  from assms have kept: "elems (Partitions rs) =
      map (\<lambda>(part, usage). DiskPartition_of part (projr usage))
        (filter (\<lambda>(part, usage). \<not> isl usage) parts)"
    "mset (elems (Processes rs)) =
      mset (map (\<lambda>p. ProcessInfo_of p (projr (p_Name p)) (projr (p_MemoryInfo p))
                    (case p_Status p of [] \<Rightarrow> '''' | st # _ \<Rightarrow> st))
             (filter (\<lambda>p. \<not> isl (p_Name p) \<and> \<not> isl (p_MemoryInfo p)) procs))"
    by (auto simp: sendSnapshot_def processes_loop_eq partitions_loop_eq Let_def
        elems_sort_Slice foldl_append_slice_elems mset_insertion_sort split: sum.splits)
  from assms have host: "\<not> isl (host_Uptime w)" "\<not> isl (mem_VirtualMemory w)"
    "\<not> isl (load_Avg w)"
    by (auto simp: sendSnapshot_def split: sum.splits)
  with assms(2,3) have calls: "sendSnapshot_calls w =
      [Call_Uptime, Call_VirtualMemory, Call_Avg, Call_Partitions] @ partitions_calls parts
        @ Call_Processes # processes_calls procs"
    by (auto simp: sendSnapshot_calls_def split: sum.splits)
  show ?thesis
    unfolding calls
    by (simp add: kept DiskPartition_of_def ProcessInfo_of_def usage_lookups_append
        name_lookups_append memory_lookups_append lookups_partitions_calls
        lookups_processes_calls case_prod_beta)
qed

text \<open>
  On the host with two partitions and four processes: one partition and two processes
  are kept, with every field; the usage was asked of both mount points, the name of
  all four processes, the memory information of the three whose name could be read.
\<close>

theorem failed_lookups_omitted_witness:
  "sendSnapshot ''h1'' mixed = ([WriteJSON snapshot_mixed None], Returns None) \<and>
   elems (Partitions snapshot_mixed) =
     [\<lparr>DP_Device = ''/dev/sda1'', DP_Mountpoint = ''/'', DP_Fstype = ''ext4'',
       DP_Total = 100, DP_Used = 40, DP_Free = 60, DP_UsedPercent = 40\<rparr>] \<and>
   mset (elems (Processes snapshot_mixed)) =
     {#\<lparr>PID = 1, Name = ''A'', CPUPercent = 10, MemoryMB = 1, MemoryPercent = 0,
        Status = ''sleep'', Username = ''root'', Cmdline = ''sleep 60''\<rparr>,
       \<lparr>PID = 3, Name = ''B'', CPUPercent = 90, MemoryMB = 1, MemoryPercent = 0,
        Status = ''sleep'', Username = ''root'', Cmdline = ''sleep 60''\<rparr>#} \<and>
   usage_lookups (sendSnapshot_calls mixed) = [''/'', ''/mnt''] \<and>
   name_lookups (sendSnapshot_calls mixed) = [1, 2, 3, 4] \<and>
   memory_lookups (sendSnapshot_calls mixed) = [1, 3, 4]"
proof -
  have s: "sendSnapshot ''h1'' mixed = ([WriteJSON snapshot_mixed None], Returns None)"
    by (rule sendSnapshot_mixed)
  have p: "disk_Partitions mixed = Inr (projr (disk_Partitions mixed))"
    and q: "process_Processes mixed = Inr (projr (process_Processes mixed))"
    by (simp_all add: mixed_def)
  from failed_lookups_omitted [OF s p q] s show ?thesis
    by (simp add: mixed_def busy_process_def idle_process_def float64_of_uint64_exact)
qed

subsection \<open>C9: what serve reports once shutdown has begun\<close>

text \<open>
  C9 says that the outcome reported is the forced one exactly when a session was still
  active when the grace period ran out. The code does otherwise, by the defect of C1:
  once \<^verbatim>\<open>Shutdown\<close> has been called, \<^verbatim>\<open>ListenAndServe\<close> returns
  \<^verbatim>\<open>http.ErrServerClosed\<close> and \<^verbatim>\<open>serve\<close> returns that error at once, whatever
  \<^verbatim>\<open>Shutdown\<close> returns later and whatever the counter of the wait group.
\<close>

theorem serve_shutdown_result_ignored:
  "serve app ErrServerClosed quit shutdown = Returns (Some ErrServerClosed)"
  by (simp add: serve_def errors_Is_def)

subsection \<open>C10: firstOrEmpty\<close>

text \<open>
  C10: \<^verbatim>\<open>firstOrEmpty\<close> returns the empty string on the empty list and the first
  element on any other; it never panics, so the loop over the processes always
  returns, and the status of each entry it appends is the first status string of its
  process, or the empty string when there is none.
\<close>

theorem firstOrEmpty_never_panics:
  "firstOrEmpty [] = Returns '''' \<and> firstOrEmpty (x # xs) = Returns x \<and>
   (\<exists>infos. processes_loop ps acc = Returns infos \<and>
      map Status (elems infos) =
        map Status (elems acc) @
        map (\<lambda>p. case p_Status p of [] \<Rightarrow> '''' | st # _ \<Rightarrow> st)
          (filter (\<lambda>p. \<not> isl (p_Name p) \<and> \<not> isl (p_MemoryInfo p)) ps))"
  by (simp add: firstOrEmpty_eq processes_loop_eq foldl_append_slice_elems ProcessInfo_of_def
      comp_def)

end
